theory Spec2Isabelle
  imports Complex_Main
begin

section \<open>Values, requests and the transport\<close>

text \<open>
  The wrapper (\<^verbatim>\<open>src/wrapper.ts\<close>) moves JSON bodies between the caller and the Spotify
  Web API. A body is whatever \<^verbatim>\<open>response.data\<close> holds at run time (the TypeScript types
  are erased), so the model works on untyped JavaScript values: \<open>JUndefined\<close> is the
  absent value \<^verbatim>\<open>undefined\<close>, \<open>JObj\<close> is an object given by its own properties.
\<close>

datatype json =
    JUndefined
  | JNull
  | JBool bool
  | JNum rat
  | JStr string
  | JArr "json list"
  | JObj "(string \<times> json) list"

text \<open>
  The strings the wrapper sends are built by template literals. A template is kept as the
  list of its parts, in source order: the literal chunks and the interpolated values.
  The conversion of an interpolated value to text is not unfolded and is taken to succeed,
  as it does for a string, a number, a boolean, \<^verbatim>\<open>null\<close> and \<^verbatim>\<open>undefined\<close> (for an
  object it would call \<^verbatim>\<open>toString\<close>, which the model does not follow). \<open>Base64\<close>
  stands for \<^verbatim>\<open>Buffer.from(...).toString('base64')\<close>. A plain string \<open>s\<close> is
  \<open>[Lit s]\<close>.
\<close>

datatype part = Lit string | Subst json | Base64 "part list"

type_synonym template = "part list"

datatype error = TypeError | AxiosError "nat option"

datatype http_method = GET | POST

datatype payload = NoBody | FormBody string | JsonBody json

record request =
  meth :: http_method
  url :: template
  headers :: "(string \<times> template) list"
  params :: json
  body :: payload

text \<open>
  What the network gives back for a request: a status with a parsed body, or nothing at
  all (a network error). The transport is a parameter of every operation: it answers a
  request knowing the exchanges made before it, so it covers mocks and stateful servers.
\<close>

datatype reply = Reply nat json | NetworkError

type_synonym transport = "(request \<times> reply) list \<Rightarrow> request \<Rightarrow> reply"

text \<open>
  \<^verbatim>\<open>axios.get\<close> and \<^verbatim>\<open>axios.post\<close> resolve to a response whose \<^verbatim>\<open>data\<close> is the body
  when the status is 2xx (the library's default \<^verbatim>\<open>validateStatus\<close>) and reject otherwise.
\<close>

definition axios_settle :: "reply \<Rightarrow> error + json" where
  "axios_settle r =
     (case r of
        Reply st d \<Rightarrow> if 200 \<le> st \<and> st < 300 then Inr d else Inl (AxiosError (Some st))
      | NetworkError \<Rightarrow> Inl (AxiosError None))"

definition failed :: "reply \<Rightarrow> bool" where
  "failed r = (case r of Reply st d \<Rightarrow> \<not> (200 \<le> st \<and> st < 300) | NetworkError \<Rightarrow> True)"

subsection \<open>JavaScript operators used by the wrapper\<close>

definition nullish :: "json \<Rightarrow> bool" where
  "nullish v = (v = JUndefined \<or> v = JNull)"

text \<open>
  Property read \<^verbatim>\<open>v.name\<close>, for the names the wrapper reads (\<^verbatim>\<open>access_token\<close>,
  \<^verbatim>\<open>tracks\<close>, \<^verbatim>\<open>items\<close>, \<^verbatim>\<open>track\<close>, \<^verbatim>\<open>id\<close>; none of them is defined on a built-in
  prototype): a TypeError on \<^verbatim>\<open>undefined\<close> and \<^verbatim>\<open>null\<close>, the own property of an object,
  \<^verbatim>\<open>undefined\<close> in every other case.
\<close>

definition get_prop :: "json \<Rightarrow> string \<Rightarrow> error + json" where
  "get_prop v name =
     (if nullish v then Inl TypeError
      else case v of
          JObj props \<Rightarrow> (case map_of props name of Some x \<Rightarrow> Inr x | None \<Rightarrow> Inr JUndefined)
        | _ \<Rightarrow> Inr JUndefined)"

definition and_then :: "error + 'a \<Rightarrow> ('a \<Rightarrow> error + 'b) \<Rightarrow> error + 'b" where
  "and_then r f = (case r of Inl e \<Rightarrow> Inl e | Inr v \<Rightarrow> f v)"

text \<open>Optional chaining \<^verbatim>\<open>v?.rest\<close>: the whole chain is \<^verbatim>\<open>undefined\<close> when \<open>v\<close> is nullish.\<close>

definition opt_chain :: "json \<Rightarrow> (json \<Rightarrow> error + json) \<Rightarrow> error + json" where
  "opt_chain v rest = (if nullish v then Inr JUndefined else rest v)"

text \<open>Truthiness, as tested by \<^verbatim>\<open>!playlist\<close>.\<close>

definition truthy :: "json \<Rightarrow> bool" where
  "truthy v =
     (case v of
        JUndefined \<Rightarrow> False
      | JNull \<Rightarrow> False
      | JBool b \<Rightarrow> b
      | JNum n \<Rightarrow> n \<noteq> 0
      | JStr s \<Rightarrow> s \<noteq> []
      | JArr xs \<Rightarrow> True
      | JObj props \<Rightarrow> True)"

section \<open>The Wrapper class\<close>

text \<open>
  The fields of a \<^verbatim>\<open>Wrapper\<close> instance, together with the two channels its methods write
  to: the exchanges made with the transport (each request with the reply it gets) and the
  lines passed to \<^verbatim>\<open>console.error\<close>.
\<close>

record state =
  clientId :: string
  clientSecret :: string
  accessToken :: json
  exchanges :: "(request \<times> reply) list"
  console :: "(template \<times> error) list"

definition new_Wrapper :: "string \<Rightarrow> string \<Rightarrow> state" where
  "new_Wrapper cid secret =
     \<lparr>clientId = cid, clientSecret = secret, accessToken = JNull, exchanges = [], console = []\<rparr>"

definition issue :: "transport \<Rightarrow> request \<Rightarrow> state \<Rightarrow> reply \<times> state" where
  "issue net q s = (let r = net (exchanges s) q in (r, s\<lparr>exchanges := exchanges s @ [(q, r)]\<rparr>))"

definition console_error :: "template \<Rightarrow> error \<Rightarrow> state \<Rightarrow> state" where
  "console_error msg e s = s\<lparr>console := console s @ [(msg, e)]\<rparr>"

subsection \<open>authenticate\<close>

definition tokenUrl :: template where
  "tokenUrl = [Lit ''https://accounts.spotify.com/api/token'']"

text \<open>The request of \<^verbatim>\<open>authenticate\<close>: the form body is \<^verbatim>\<open>stringify({grant_type: 'client_credentials'})\<close>.\<close>

definition auth_request :: "state \<Rightarrow> request" where
  "auth_request s =
     \<lparr>meth = POST, url = tokenUrl,
      headers =
        [(''Authorization'',
            [Lit ''Basic '', Base64 [Subst (JStr (clientId s)), Lit '':'', Subst (JStr (clientSecret s))]]),
         (''Content-Type'', [Lit ''application/x-www-form-urlencoded''])],
      params = JUndefined,
      body = FormBody ''grant_type=client_credentials''\<rparr>"

text \<open>
  The \<^verbatim>\<open>try\<close> block of \<^verbatim>\<open>authenticate\<close> once the POST has settled: the token is
  assigned from \<^verbatim>\<open>response.data.access_token\<close>; a rejection, or a TypeError of that read,
  goes to the \<^verbatim>\<open>catch\<close>, which logs and returns.
\<close>

definition auth_settle :: "reply \<Rightarrow> state \<Rightarrow> (error + unit) \<times> state" where
  "auth_settle r s =
     (case and_then (axios_settle r) (\<lambda>d. get_prop d ''access_token'') of
        Inr tok \<Rightarrow> (Inr (), s\<lparr>accessToken := tok\<rparr>)
      | Inl e \<Rightarrow> (Inr (), console_error [Lit ''Failed to authenticate with Spotify API''] e s))"

definition authenticate :: "transport \<Rightarrow> state \<Rightarrow> (error + unit) \<times> state" where
  "authenticate net s = (let (r, s1) = issue net (auth_request s) s in auth_settle r s1)"

subsection \<open>makeRequest\<close>

definition get_request :: "template \<Rightarrow> json \<Rightarrow> state \<Rightarrow> request" where
  "get_request u ps s =
     \<lparr>meth = GET, url = u,
      headers = [(''Authorization'', [Lit ''Bearer '', Subst (accessToken s)])],
      params = ps,
      body = NoBody\<rparr>"

text \<open>
  The \<^verbatim>\<open>try\<close> block of \<^verbatim>\<open>makeRequest\<close> once the GET has settled: the body is returned,
  or the \<^verbatim>\<open>catch\<close> logs and the function ends without a \<^verbatim>\<open>return\<close> (\<^verbatim>\<open>undefined\<close>).
\<close>

definition get_settle :: "template \<Rightarrow> reply \<Rightarrow> state \<Rightarrow> (error + json) \<times> state" where
  "get_settle u r s =
     (case axios_settle r of
        Inr d \<Rightarrow> (Inr d, s)
      | Inl e \<Rightarrow> (Inr JUndefined, console_error (Lit ''Failed to fetch from Spotify API: '' # u) e s))"

definition makeRequest :: "transport \<Rightarrow> template \<Rightarrow> json \<Rightarrow> state \<Rightarrow> (error + json) \<times> state" where
  "makeRequest net u ps s =
     (case authenticate net s of
        (Inl e, s1) \<Rightarrow> (Inl e, s1)
      | (Inr _, s1) \<Rightarrow> (let (r, s2) = issue net (get_request u ps s1) s1 in get_settle u r s2))"

subsection \<open>The read methods\<close>

definition api :: string where
  "api = ''https://api.spotify.com/v1/''"

definition playlist_url :: "string \<Rightarrow> template" where
  "playlist_url playlistId = [Lit (api @ ''playlists/''), Subst (JStr playlistId)]"

definition search_url :: template where
  "search_url = [Lit (api @ ''search'')]"

definition album_url :: "string \<Rightarrow> template" where
  "album_url albumId = [Lit (api @ ''albums/''), Subst (JStr albumId)]"

definition artist_url :: "string \<Rightarrow> template" where
  "artist_url artistId = [Lit (api @ ''artists/''), Subst (JStr artistId)]"

definition user_url :: "string \<Rightarrow> template" where
  "user_url userId = [Lit (api @ ''users/''), Subst (JStr userId)]"

definition top_tracks_url :: "string \<Rightarrow> template" where
  "top_tracks_url artistId = [Lit (api @ ''artists/''), Subst (JStr artistId), Lit ''/top-tracks'']"

definition artist_albums_url :: "string \<Rightarrow> template" where
  "artist_albums_url artistId = [Lit (api @ ''artists/''), Subst (JStr artistId), Lit ''/albums'']"

definition getPlaylist :: "transport \<Rightarrow> string \<Rightarrow> state \<Rightarrow> (error + json) \<times> state" where
  "getPlaylist net playlistId s = makeRequest net (playlist_url playlistId) JUndefined s"

definition search_params :: "string \<Rightarrow> json" where
  "search_params query = JObj [(''q'', JStr query), (''type'', JStr ''track'')]"

definition searchTracks :: "transport \<Rightarrow> string \<Rightarrow> state \<Rightarrow> (error + json) \<times> state" where
  "searchTracks net query s =
     (case makeRequest net search_url (search_params query) s of
        (Inl e, s1) \<Rightarrow> (Inl e, s1)
      | (Inr data, s1) \<Rightarrow>
          (opt_chain data (\<lambda>d. and_then (get_prop d ''tracks'') (\<lambda>t. get_prop t ''items'')), s1))"

definition getAlbum :: "transport \<Rightarrow> string \<Rightarrow> state \<Rightarrow> (error + json) \<times> state" where
  "getAlbum net albumId s = makeRequest net (album_url albumId) JUndefined s"

definition getArtist :: "transport \<Rightarrow> string \<Rightarrow> state \<Rightarrow> (error + json) \<times> state" where
  "getArtist net artistId s = makeRequest net (artist_url artistId) JUndefined s"

definition getUserProfile :: "transport \<Rightarrow> string \<Rightarrow> state \<Rightarrow> (error + json) \<times> state" where
  "getUserProfile net userId s = makeRequest net (user_url userId) JUndefined s"

definition getArtistTopTracks ::
  "transport \<Rightarrow> string \<Rightarrow> string \<Rightarrow> state \<Rightarrow> (error + json) \<times> state" where
  "getArtistTopTracks net artistId market s =
     (case makeRequest net (top_tracks_url artistId) (JObj [(''market'', JStr market)]) s of
        (Inl e, s1) \<Rightarrow> (Inl e, s1)
      | (Inr data, s1) \<Rightarrow> (opt_chain data (\<lambda>d. get_prop d ''tracks''), s1))"

definition getArtistAlbums :: "transport \<Rightarrow> string \<Rightarrow> state \<Rightarrow> (error + json) \<times> state" where
  "getArtistAlbums net artistId s =
     (case makeRequest net (artist_albums_url artistId) JUndefined s of
        (Inl e, s1) \<Rightarrow> (Inl e, s1)
      | (Inr data, s1) \<Rightarrow> (opt_chain data (\<lambda>d. get_prop d ''items''), s1))"

subsection \<open>The two mutations\<close>

definition json_headers :: "state \<Rightarrow> (string \<times> template) list" where
  "json_headers s =
     [(''Authorization'', [Lit ''Bearer '', Subst (accessToken s)]),
      (''Content-Type'', [Lit ''application/json''])]"

definition user_playlists_url :: "string \<Rightarrow> template" where
  "user_playlists_url userId = [Lit (api @ ''users/''), Subst (JStr userId), Lit ''/playlists'']"

definition createPlaylist_request :: "string \<Rightarrow> string \<Rightarrow> string \<Rightarrow> bool \<Rightarrow> state \<Rightarrow> request" where
  "createPlaylist_request userId name description publicStatus s =
     \<lparr>meth = POST, url = user_playlists_url userId, headers = json_headers s,
      params = JUndefined,
      body = JsonBody (JObj [(''name'', JStr name), (''description'', JStr description),
                             (''public'', JBool publicStatus)])\<rparr>"

definition createPlaylist ::
  "transport \<Rightarrow> string \<Rightarrow> string \<Rightarrow> string \<Rightarrow> bool \<Rightarrow> state \<Rightarrow> (error + json) \<times> state" where
  "createPlaylist net userId name description publicStatus s =
     (let (r, s1) = issue net (createPlaylist_request userId name description publicStatus s) s in
      case axios_settle r of
        Inr d \<Rightarrow> (Inr d, s1)
      | Inl e \<Rightarrow> (Inr JUndefined, console_error [Lit ''Failed to create playlist''] e s1))"

definition playlist_tracks_url :: "string \<Rightarrow> template" where
  "playlist_tracks_url playlistId = [Lit (api @ ''playlists/''), Subst (JStr playlistId), Lit ''/tracks'']"

definition addTracks_request :: "string \<Rightarrow> string list \<Rightarrow> state \<Rightarrow> request" where
  "addTracks_request playlistId trackUris s =
     \<lparr>meth = POST, url = playlist_tracks_url playlistId, headers = json_headers s,
      params = JUndefined,
      body = JsonBody (JObj [(''uris'', JArr (map JStr trackUris))])\<rparr>"

definition addTracksToPlaylist ::
  "transport \<Rightarrow> string \<Rightarrow> string list \<Rightarrow> state \<Rightarrow> (error + json) \<times> state" where
  "addTracksToPlaylist net playlistId trackUris s =
     (let (r, s1) = issue net (addTracks_request playlistId trackUris s) s in
      case axios_settle r of
        Inr d \<Rightarrow> (Inr JUndefined, s1)
      | Inl e \<Rightarrow> (Inr JUndefined, console_error [Lit ''Failed to add tracks to playlist''] e s1))"

section \<open>The TrackAnalysis class\<close>

definition features_url :: "json \<Rightarrow> template" where
  "features_url trackId = [Lit (api @ ''audio-features/''), Subst trackId]"

text \<open>
  \<^verbatim>\<open>getTrackFeatures\<close> is declared on a string, but \<^verbatim>\<open>analyzePlaylist\<close> calls it on the
  value read from the playlist body, so the identifier is a value here.
\<close>

definition getTrackFeatures :: "transport \<Rightarrow> json \<Rightarrow> state \<Rightarrow> (error + json) \<times> state" where
  "getTrackFeatures net trackId s = makeRequest net (features_url trackId) JUndefined s"

subsection \<open>The fan-out of analyzePlaylist\<close>

text \<open>
  \<^verbatim>\<open>items.map(item => this.getTrackFeatures(item.track.id))\<close> starts one call of
  \<^verbatim>\<open>makeRequest\<close> per item, and \<^verbatim>\<open>Promise.all\<close> waits for all of them. A call runs from one
  \<^verbatim>\<open>await\<close> to the next without interruption, and the calls interleave at the awaits, so
  a call in flight is a task with one of four stages:
  \<^item> \<open>AwaitAuth r\<close>: the token POST is issued, its reply \<open>r\<close> has not been handled;
  \<^item> \<open>Resumed\<close>: \<^verbatim>\<open>authenticate\<close> has returned, \<^verbatim>\<open>makeRequest\<close> has not resumed yet;
  \<^item> \<open>AwaitGet r\<close>: the GET is issued, its reply \<open>r\<close> has not been handled;
  \<^item> \<open>Settled v\<close>: the promise of the call is resolved (\<open>Inr\<close>) or rejected (\<open>Inl\<close>).
  A schedule is the list of task numbers in the order in which the event loop resumes them.
\<close>

datatype stage = AwaitAuth reply | Resumed | AwaitGet reply | Settled "error + json"

record task =
  turl :: template
  tparams :: json
  stage :: stage

text \<open>The start of a call of \<^verbatim>\<open>makeRequest\<close>, up to the first \<^verbatim>\<open>await\<close>.\<close>

definition start_request :: "transport \<Rightarrow> template \<Rightarrow> json \<Rightarrow> state \<Rightarrow> task \<times> state" where
  "start_request net u ps s =
     (let (r, s1) = issue net (auth_request s) s in (\<lparr>turl = u, tparams = ps, stage = AwaitAuth r\<rparr>, s1))"

text \<open>One resumption of a task.\<close>

definition advance :: "transport \<Rightarrow> task \<Rightarrow> state \<Rightarrow> task \<times> state" where
  "advance net t s =
     (case stage t of
        AwaitAuth r \<Rightarrow>
          (case auth_settle r s of
             (Inl e, s1) \<Rightarrow> (t\<lparr>stage := Settled (Inl e)\<rparr>, s1)
           | (Inr _, s1) \<Rightarrow> (t\<lparr>stage := Resumed\<rparr>, s1))
      | Resumed \<Rightarrow>
          (let (r, s1) = issue net (get_request (turl t) (tparams t) s) s
           in (t\<lparr>stage := AwaitGet r\<rparr>, s1))
      | AwaitGet r \<Rightarrow>
          (let (v, s1) = get_settle (turl t) r s in (t\<lparr>stage := Settled v\<rparr>, s1))
      | Settled v \<Rightarrow> (t, s))"

fun run :: "transport \<Rightarrow> nat list \<Rightarrow> task list \<times> state \<Rightarrow> task list \<times> state" where
  "run net [] (ts, s) = (ts, s)"
| "run net (i # sched) (ts, s) =
     (if i < length ts
      then (let (t, s1) = advance net (ts ! i) s in run net sched (ts[i := t], s1))
      else run net sched (ts, s))"

text \<open>\<^verbatim>\<open>item.track.id\<close>\<close>

definition track_id :: "json \<Rightarrow> error + json" where
  "track_id item = and_then (get_prop item ''track'') (\<lambda>t. get_prop t ''id'')"

text \<open>
  The callback of \<^verbatim>\<open>map\<close>, item after item: a TypeError of \<^verbatim>\<open>item.track.id\<close> leaves
  \<^verbatim>\<open>map\<close> (and \<^verbatim>\<open>analyzePlaylist\<close>) at once, after the calls started for the items before
  (what those calls do later is no part of the result and is not followed).
\<close>

fun start_all :: "transport \<Rightarrow> json list \<Rightarrow> state \<Rightarrow> (error + task list) \<times> state" where
  "start_all net [] s = (Inr [], s)"
| "start_all net (item # rest) s =
     (case track_id item of
        Inl e \<Rightarrow> (Inl e, s)
      | Inr tid \<Rightarrow>
          (let (t, s1) = start_request net (features_url tid) JUndefined s in
           case start_all net rest s1 of
             (Inl e, s2) \<Rightarrow> (Inl e, s2)
           | (Inr ts, s2) \<Rightarrow> (Inr (t # ts), s2)))"

text \<open>
  \<^verbatim>\<open>Promise.all\<close>: rejected as soon as one promise is, resolved with the values in the
  order of the promises once all are resolved, pending (\<open>None\<close>) until then. Were
  several promises rejected, the first in list order is taken; no call of \<^verbatim>\<open>makeRequest\<close>
  is ever rejected, though (\<open>fan_out_never_rejects\<close> below).
\<close>

definition settled_value :: "task \<Rightarrow> json option" where
  "settled_value t = (case stage t of Settled (Inr v) \<Rightarrow> Some v | _ \<Rightarrow> None)"

definition rejection :: "task \<Rightarrow> error option" where
  "rejection t = (case stage t of Settled (Inl e) \<Rightarrow> Some e | _ \<Rightarrow> None)"

definition promise_all :: "task list \<Rightarrow> (error + json) option" where
  "promise_all ts =
     (case List.map_filter rejection ts of
        e # _ \<Rightarrow> Some (Inl e)
      | [] \<Rightarrow> (case those (map settled_value ts) of
                Some vs \<Rightarrow> Some (Inr (JArr vs))
              | None \<Rightarrow> None))"

subsection \<open>analyzePlaylist\<close>

text \<open>
  The result is \<open>None\<close> when the schedule ends before \<^verbatim>\<open>Promise.all\<close> has settled (the
  promise of \<^verbatim>\<open>analyzePlaylist\<close> is still pending).
\<close>

definition analyzePlaylist ::
  "transport \<Rightarrow> nat list \<Rightarrow> string \<Rightarrow> state \<Rightarrow> (error + json) option \<times> state" where
  "analyzePlaylist net sched playlistId s =
     (case getPlaylist net playlistId s of
        (Inl e, s1) \<Rightarrow> (Some (Inl e), s1)
      | (Inr playlist, s1) \<Rightarrow>
          if \<not> truthy playlist then (Some (Inr JUndefined), s1)
          else
            (case and_then (get_prop playlist ''tracks'') (\<lambda>t. get_prop t ''items'') of
               Inl e \<Rightarrow> (Some (Inl e), s1)
             | Inr (JArr items) \<Rightarrow>
                 (case start_all net items s1 of
                    (Inl e, s2) \<Rightarrow> (Some (Inl e), s2)
                  | (Inr ts, s2) \<Rightarrow> (let (ts', s3) = run net sched (ts, s2) in (promise_all ts', s3)))
             | Inr _ \<Rightarrow> (Some (Inl TypeError), s1)))"

section \<open>Notions used to state the properties\<close>

text \<open>The read methods of the two classes, as calls, and the method each call runs.\<close>

datatype read_call =
    MakeRequest template json
  | GetPlaylist string
  | SearchTracks string
  | GetAlbum string
  | GetArtist string
  | GetUserProfile string
  | GetArtistTopTracks string string
  | GetArtistAlbums string
  | GetTrackFeatures json

fun perform_read :: "transport \<Rightarrow> read_call \<Rightarrow> state \<Rightarrow> (error + json) \<times> state" where
  "perform_read net (MakeRequest u ps) s = makeRequest net u ps s"
| "perform_read net (GetPlaylist playlistId) s = getPlaylist net playlistId s"
| "perform_read net (SearchTracks query) s = searchTracks net query s"
| "perform_read net (GetAlbum albumId) s = getAlbum net albumId s"
| "perform_read net (GetArtist artistId) s = getArtist net artistId s"
| "perform_read net (GetUserProfile userId) s = getUserProfile net userId s"
| "perform_read net (GetArtistTopTracks artistId market) s = getArtistTopTracks net artistId market s"
| "perform_read net (GetArtistAlbums artistId) s = getArtistAlbums net artistId s"
| "perform_read net (GetTrackFeatures trackId) s = getTrackFeatures net trackId s"

text \<open>The endpoint and the query parameters of a read call.\<close>

fun read_url :: "read_call \<Rightarrow> template" where
  "read_url (MakeRequest u ps) = u"
| "read_url (GetPlaylist playlistId) = playlist_url playlistId"
| "read_url (SearchTracks query) = search_url"
| "read_url (GetAlbum albumId) = album_url albumId"
| "read_url (GetArtist artistId) = artist_url artistId"
| "read_url (GetUserProfile userId) = user_url userId"
| "read_url (GetArtistTopTracks artistId market) = top_tracks_url artistId"
| "read_url (GetArtistAlbums artistId) = artist_albums_url artistId"
| "read_url (GetTrackFeatures trackId) = features_url trackId"

fun read_params :: "read_call \<Rightarrow> json" where
  "read_params (MakeRequest u ps) = ps"
| "read_params (SearchTracks query) = search_params query"
| "read_params (GetArtistTopTracks artistId market) = JObj [(''market'', JStr market)]"
| "read_params _ = JUndefined"

text \<open>
  The unwrapping as the specification words it: \<^verbatim>\<open>searchTracks\<close> gives
  \<^verbatim>\<open>response.tracks.items\<close>, \<^verbatim>\<open>getArtistTopTracks\<close> gives \<^verbatim>\<open>response.tracks\<close>,
  \<^verbatim>\<open>getArtistAlbums\<close> gives \<^verbatim>\<open>response.items\<close>, every other read gives the body.
\<close>

fun spec_unwrap :: "read_call \<Rightarrow> json \<Rightarrow> error + json" where
  "spec_unwrap (SearchTracks query) d = and_then (get_prop d ''tracks'') (\<lambda>t. get_prop t ''items'')"
| "spec_unwrap (GetArtistTopTracks artistId market) d = get_prop d ''tracks''"
| "spec_unwrap (GetArtistAlbums artistId) d = get_prop d ''items''"
| "spec_unwrap _ d = Inr d"

text \<open>The reply the transport gives to the GET of \<^verbatim>\<open>makeRequest\<close>.\<close>

definition get_reply :: "transport \<Rightarrow> template \<Rightarrow> json \<Rightarrow> state \<Rightarrow> reply" where
  "get_reply net u ps s =
     (let s1 = snd (authenticate net s) in net (exchanges s1) (get_request u ps s1))"

text \<open>What a settled GET hands to the caller: the body of a 2xx reply, else the absent value.\<close>

definition delivered :: "reply \<Rightarrow> json" where
  "delivered r = (case axios_settle r of Inr d \<Rightarrow> d | Inl e \<Rightarrow> JUndefined)"





text \<open>
  A primitive value. The templates interpolate the token and the track identifiers; for a
  primitive value (the declared \<^verbatim>\<open>string | null\<close> of the token, the \<^verbatim>\<open>string\<close> of an
  identifier, and also \<^verbatim>\<open>undefined\<close>, a number or a boolean) that conversion cannot raise.
\<close>

definition primitive :: "json \<Rightarrow> bool" where
  "primitive v = (case v of JArr xs \<Rightarrow> False | JObj props \<Rightarrow> False | _ \<Rightarrow> True)"


text \<open>
  The exchanges \<open>new\<close>, made after the exchanges \<open>base\<close>, are exchanges with the transport:
  each reply is the one the transport gives to that request after all the exchanges before
  it.
\<close>

definition answered :: "transport \<Rightarrow> (request \<times> reply) list \<Rightarrow> (request \<times> reply) list \<Rightarrow> bool" where
  "answered net base new =
     (\<forall>k<length new. snd (new ! k) = net (base @ take k new) (fst (new ! k)))"

subsection \<open>A mocked transport\<close>

text \<open>
  The scenario of the specification: the token endpoint answers \<^verbatim>\<open>tok\<close>, playlist
  \<^verbatim>\<open>p1\<close> has the tracks \<^verbatim>\<open>t1\<close> and \<^verbatim>\<open>t2\<close>, the features of \<^verbatim>\<open>t1\<close> are served and
  those of \<^verbatim>\<open>t2\<close> are not. Playlist \<^verbatim>\<open>p0\<close> is empty, a search finds \<^verbatim>\<open>t1\<close>, and a
  playlist can be created for user \<^verbatim>\<open>u1\<close>. Everything else is a 404.
\<close>

definition track_t1 :: json where
  "track_t1 = JObj [(''id'', JStr ''t1''), (''name'', JStr ''A''), (''artists'', JArr [JObj [(''name'', JStr ''X'')]])]"

definition track_t2 :: json where
  "track_t2 = JObj [(''id'', JStr ''t2''), (''name'', JStr ''B''), (''artists'', JArr [JObj [(''name'', JStr ''Y'')]])]"

definition playlist_p1 :: json where
  "playlist_p1 =
     JObj [(''id'', JStr ''p1''), (''name'', JStr ''Mix''),
           (''tracks'', JObj [(''items'', JArr [JObj [(''track'', track_t1)], JObj [(''track'', track_t2)]])])]"

definition playlist_p0 :: json where
  "playlist_p0 = JObj [(''id'', JStr ''p0''), (''name'', JStr ''Empty''), (''tracks'', JObj [(''items'', JArr [])])]"

definition playlist_pl1 :: json where
  "playlist_pl1 = JObj [(''id'', JStr ''pl1''), (''name'', JStr ''My List''), (''tracks'', JObj [(''items'', JArr [])])]"

definition features_t1 :: json where
  "features_t1 = JObj [(''danceability'', JNum (1 / 2))]"

definition mock :: transport where
  "mock history q =
     (if meth q = POST \<and> url q = tokenUrl then Reply 200 (JObj [(''access_token'', JStr ''tok'')])
      else if meth q = POST \<and> url q = user_playlists_url ''u1'' then Reply 201 playlist_pl1
      else if meth q = POST \<and> url q = playlist_tracks_url ''pl1'' then Reply 201 (JObj [(''snapshot_id'', JStr ''x'')])
      else if meth q = GET \<and> url q = playlist_url ''p1'' then Reply 200 playlist_p1
      else if meth q = GET \<and> url q = playlist_url ''p0'' then Reply 200 playlist_p0
      else if meth q = GET \<and> url q = features_url (JStr ''t1'') then Reply 200 features_t1
      else if meth q = GET \<and> url q = search_url then Reply 200 (JObj [(''tracks'', JObj [(''items'', JArr [track_t1])])])
      else Reply 404 JNull)"

definition offline :: transport where
  "offline history q = NetworkError"

definition client1 :: state where
  "client1 = new_Wrapper ''id1'' ''secret1''"

text \<open>The same transport with the token endpoint refusing the credentials.\<close>

definition token_down :: transport where
  "token_down history q =
     (if url q = tokenUrl then Reply 401 (JObj [(''error'', JStr ''invalid_client'')])
      else mock history q)"



section \<open>Facts about the wrapper\<close>

subsection \<open>One request after the other\<close>

lemma authenticate_returns: "fst (authenticate net s) = Inr ()"
  by (simp add: authenticate_def issue_def auth_settle_def Let_def split: sum.splits)

lemma authenticate_exchanges:
  "exchanges (snd (authenticate net s)) =
     exchanges s @ [(auth_request s, net (exchanges s) (auth_request s))]"
  by (simp add: authenticate_def issue_def auth_settle_def console_error_def Let_def split: sum.splits)

lemma authenticate_eq:
  "authenticate net s = (Inr (), snd (authenticate net s))"
  using authenticate_returns [of net s] by (metis prod.collapse)

lemma makeRequest_eq:
  "makeRequest net u ps s =
     (let s1 = snd (authenticate net s);
          q = get_request u ps s1;
          r = net (exchanges s1) q
      in get_settle u r (s1\<lparr>exchanges := exchanges s1 @ [(q, r)]\<rparr>))"
  apply (subst makeRequest_def)
  apply (subst authenticate_eq)
  apply (simp add: issue_def Let_def)
  done

lemma get_settle_exchanges: "exchanges (snd (get_settle u r s)) = exchanges s"
  by (simp add: get_settle_def console_error_def split: sum.splits)

lemma get_settle_result:
  "fst (get_settle u r s) = (case axios_settle r of Inr d \<Rightarrow> Inr d | Inl e \<Rightarrow> Inr JUndefined)"
  by (simp add: get_settle_def split: sum.splits)

lemma makeRequest_exchanges:
  "exchanges (snd (makeRequest net u ps s)) =
     exchanges s @ [(auth_request s, net (exchanges s) (auth_request s)),
                    (get_request u ps (snd (authenticate net s)), get_reply net u ps s)]"
  by (simp add: makeRequest_eq Let_def get_settle_exchanges authenticate_exchanges get_reply_def)

lemma makeRequest_result:
  "fst (makeRequest net u ps s) =
     (case axios_settle (get_reply net u ps s) of Inr d \<Rightarrow> Inr d | Inl e \<Rightarrow> Inr JUndefined)"
  by (simp add: makeRequest_eq Let_def get_settle_result get_reply_def)

lemma perform_read_exchanges:
  "exchanges (snd (perform_read net c s)) =
     exchanges s @ [(auth_request s, net (exchanges s) (auth_request s)),
                    (get_request (read_url c) (read_params c) (snd (authenticate net s)),
                     get_reply net (read_url c) (read_params c) s)]"
  by (cases c)
     (simp_all add: getPlaylist_def searchTracks_def getAlbum_def getArtist_def getUserProfile_def
        getArtistTopTracks_def getArtistAlbums_def getTrackFeatures_def makeRequest_exchanges split: prod.splits sum.splits,
      (metis makeRequest_exchanges snd_conv)+)

lemma failed_settle: "failed r \<longleftrightarrow> (\<exists>e. axios_settle r = Inl e)"
  by (cases r) (simp_all add: failed_def axios_settle_def)

lemma delivered_failed: "failed r \<Longrightarrow> delivered r = JUndefined"
  by (auto simp: failed_settle delivered_def)

lemma delivered_ok: "200 \<le> st \<Longrightarrow> st < 300 \<Longrightarrow> delivered (Reply st d) = d"
  by (simp add: delivered_def axios_settle_def)

lemma makeRequest_delivered: "fst (makeRequest net u ps s) = Inr (delivered (get_reply net u ps s))"
  by (simp add: makeRequest_result delivered_def split: sum.splits)

lemma perform_read_last:
  "last (exchanges (snd (perform_read net c s))) =
     (get_request (read_url c) (read_params c) (snd (authenticate net s)),
      get_reply net (read_url c) (read_params c) s)"
  by (simp add: perform_read_exchanges)

lemma perform_read_absent:
  "delivered (get_reply net (read_url c) (read_params c) s) = JUndefined \<Longrightarrow>
   fst (perform_read net c s) = Inr JUndefined"
proof (cases c)
  case (SearchTracks query)
  assume "delivered (get_reply net (read_url c) (read_params c) s) = JUndefined"
  then have "fst (makeRequest net search_url (search_params query) s) = Inr JUndefined"
    using SearchTracks by (simp add: makeRequest_delivered)
  then show ?thesis using SearchTracks
    by (cases "makeRequest net search_url (search_params query) s")
       (simp add: searchTracks_def opt_chain_def nullish_def)
next
  case (GetArtistTopTracks artistId market)
  assume "delivered (get_reply net (read_url c) (read_params c) s) = JUndefined"
  then have "fst (makeRequest net (top_tracks_url artistId) (JObj [(''market'', JStr market)]) s) = Inr JUndefined"
    using GetArtistTopTracks by (simp add: makeRequest_delivered)
  then show ?thesis using GetArtistTopTracks
    by (cases "makeRequest net (top_tracks_url artistId) (JObj [(''market'', JStr market)]) s")
       (simp add: getArtistTopTracks_def opt_chain_def nullish_def)
next
  case (GetArtistAlbums artistId)
  assume "delivered (get_reply net (read_url c) (read_params c) s) = JUndefined"
  then have "fst (makeRequest net (artist_albums_url artistId) JUndefined s) = Inr JUndefined"
    using GetArtistAlbums by (simp add: makeRequest_delivered)
  then show ?thesis using GetArtistAlbums
    by (cases "makeRequest net (artist_albums_url artistId) JUndefined s")
       (simp add: getArtistAlbums_def opt_chain_def nullish_def)
qed (simp_all add: makeRequest_delivered getPlaylist_def getAlbum_def getArtist_def
       getUserProfile_def getTrackFeatures_def)

lemma spec_unwrap_chain:
  "and_then (get_prop d a) f = Inr v \<Longrightarrow> opt_chain d (\<lambda>d. and_then (get_prop d a) f) = Inr v"
  by (auto simp: opt_chain_def get_prop_def and_then_def split: if_splits)

lemma spec_unwrap_prop:
  "get_prop d a = Inr v \<Longrightarrow> opt_chain d (\<lambda>d. get_prop d a) = Inr v"
  by (auto simp: opt_chain_def get_prop_def split: if_splits)

lemma perform_read_body:
  assumes "spec_unwrap c (delivered (get_reply net (read_url c) (read_params c) s)) = Inr v"
  shows "fst (perform_read net c s) = Inr v"
proof (cases c)
  case (SearchTracks query)
  let ?d = "delivered (get_reply net search_url (search_params query) s)"
  have "fst (makeRequest net search_url (search_params query) s) = Inr ?d"
    by (simp add: makeRequest_delivered)
  moreover have "opt_chain ?d (\<lambda>d. and_then (get_prop d ''tracks'') (\<lambda>t. get_prop t ''items'')) = Inr v"
    using assms SearchTracks by (simp add: spec_unwrap_chain)
  ultimately show ?thesis using SearchTracks
    by (cases "makeRequest net search_url (search_params query) s") (simp add: searchTracks_def)
next
  case (GetArtistTopTracks artistId market)
  let ?ps = "JObj [(''market'', JStr market)]"
  let ?d = "delivered (get_reply net (top_tracks_url artistId) ?ps s)"
  have "fst (makeRequest net (top_tracks_url artistId) ?ps s) = Inr ?d"
    by (simp add: makeRequest_delivered)
  moreover have "opt_chain ?d (\<lambda>d. get_prop d ''tracks'') = Inr v"
    using assms GetArtistTopTracks by (simp add: spec_unwrap_prop)
  ultimately show ?thesis using GetArtistTopTracks
    by (cases "makeRequest net (top_tracks_url artistId) ?ps s") (simp add: getArtistTopTracks_def)
next
  case (GetArtistAlbums artistId)
  let ?d = "delivered (get_reply net (artist_albums_url artistId) JUndefined s)"
  have "fst (makeRequest net (artist_albums_url artistId) JUndefined s) = Inr ?d"
    by (simp add: makeRequest_delivered)
  moreover have "opt_chain ?d (\<lambda>d. get_prop d ''items'') = Inr v"
    using assms GetArtistAlbums by (simp add: spec_unwrap_prop)
  ultimately show ?thesis using GetArtistAlbums
    by (cases "makeRequest net (artist_albums_url artistId) JUndefined s") (simp add: getArtistAlbums_def)
qed (use assms in \<open>simp_all add: makeRequest_delivered getPlaylist_def getAlbum_def getArtist_def
       getUserProfile_def getTrackFeatures_def\<close>)

subsection \<open>Tasks and schedules\<close>


















lemma start_request_eq:
  "start_request net u ps s =
     (\<lparr>turl = u, tparams = ps, stage = AwaitAuth (net (exchanges s) (auth_request s))\<rparr>,
      s\<lparr>exchanges := exchanges s @ [(auth_request s, net (exchanges s) (auth_request s))]\<rparr>)"
  by (simp add: start_request_def issue_def Let_def)






lemma get_prop_object:
  "get_prop v name = Inr x \<Longrightarrow> x \<noteq> JUndefined \<Longrightarrow> \<exists>props. v = JObj props"
  by (cases v) (auto simp: get_prop_def nullish_def split: if_splits)

lemma items_truthy:
  assumes "and_then (get_prop playlist ''tracks'') (\<lambda>t. get_prop t ''items'') = Inr (JArr items)"
  shows "truthy playlist"
proof -
  from assms obtain t where t: "get_prop playlist ''tracks'' = Inr t"
    and i: "get_prop t ''items'' = Inr (JArr items)"
    by (auto simp: and_then_def split: sum.splits)
  from get_prop_object [OF i] obtain props where "t = JObj props" by auto
  with get_prop_object [OF t] obtain props' where "playlist = JObj props'" by auto
  then show ?thesis by (simp add: truthy_def)
qed



lemma answered_snoc:
  assumes "answered net base new"
  shows "answered net base (new @ [(q, net (base @ new) q)])"
  unfolding answered_def
proof (intro allI impI)
  fix k assume "k < length (new @ [(q, net (base @ new) q)])"
  then consider "k < length new" | "k = length new" by fastforce
  then show "snd ((new @ [(q, net (base @ new) q)]) ! k)
               = net (base @ take k (new @ [(q, net (base @ new) q)])) (fst ((new @ [(q, net (base @ new) q)]) ! k))"
  proof cases
    case 1
    then show ?thesis using assms by (simp add: answered_def nth_append)
  next
    case 2
    then show ?thesis by (simp add: nth_append)
  qed
qed

lemma answered_append:
  assumes "answered net base a" and "answered net (base @ a) b"
  shows "answered net base (a @ b)"
  unfolding answered_def
proof (intro allI impI)
  fix k assume k: "k < length (a @ b)"
  show "snd ((a @ b) ! k) = net (base @ take k (a @ b)) (fst ((a @ b) ! k))"
  proof (cases "k < length a")
    case True
    then show ?thesis using assms(1) by (simp add: answered_def nth_append)
  next
    case False
    then have "k - length a < length b" using k by simp
    then have "snd (b ! (k - length a)) = net ((base @ a) @ take (k - length a) b) (fst (b ! (k - length a)))"
      using assms(2) by (simp add: answered_def)
    then show ?thesis using False by (simp add: nth_append)
  qed
qed

lemma issue_answered:
  "issue net q s = (r, s1) \<Longrightarrow> exchanges s = base @ new \<Longrightarrow> answered net base new \<Longrightarrow>
   \<exists>new1. exchanges s1 = base @ new1 \<and> answered net base new1"
  using answered_snoc [of net base new q]
  by (auto simp: issue_def Let_def intro!: exI [of _ "new @ [(q, net (base @ new) q)]"])






lemma makeRequest_as_task:
  "run net [0, 0, 0] ([fst (start_request net u ps s)], snd (start_request net u ps s))
     = ([\<lparr>turl = u, tparams = ps, stage = Settled (fst (makeRequest net u ps s))\<rparr>],
        snd (makeRequest net u ps s))"
  by (simp add: start_request_eq makeRequest_def authenticate_def issue_def advance_def Let_def
        split: prod.splits sum.splits)

subsection \<open>Bodies of another shape\<close>

text \<open>
  The read \<^verbatim>\<open>data?.tracks.items\<close> is guarded at its first step only, and
  \<^verbatim>\<open>item.track.id\<close> not at all. A body without \<^verbatim>\<open>tracks\<close>, or an item whose \<^verbatim>\<open>track\<close>
  is \<^verbatim>\<open>null\<close>, makes the method raise a TypeError, although every request succeeded.
\<close>

lemma searchTracks_without_tracks:
  "fst (searchTracks (\<lambda>history q. Reply 200 (JObj [])) query s) = Inl TypeError"
  by (simp add: searchTracks_def makeRequest_eq get_settle_def axios_settle_def opt_chain_def
        get_prop_def and_then_def nullish_def Let_def)

lemma analyzePlaylist_item_without_track:
  "fst (analyzePlaylist
          (\<lambda>history q. Reply 200 (JObj [(''tracks'', JObj [(''items'', JArr [JObj [(''track'', JNull)]])])]))
          sched playlistId s)
     = Some (Inl TypeError)"
  by (simp add: analyzePlaylist_def getPlaylist_def makeRequest_eq get_settle_def axios_settle_def
        truthy_def get_prop_def and_then_def nullish_def track_id_def Let_def)

section \<open>The properties\<close>

subsection \<open>Failed reads\<close>

text \<open>
  C1. If the transport answers the GET of a read method (\<^verbatim>\<open>getPlaylist\<close>, \<^verbatim>\<open>getAlbum\<close>,
  \<^verbatim>\<open>getArtist\<close>, \<^verbatim>\<open>getUserProfile\<close>, \<^verbatim>\<open>getArtistTopTracks\<close>, \<^verbatim>\<open>getArtistAlbums\<close>,
  \<^verbatim>\<open>searchTracks\<close>, \<^verbatim>\<open>makeRequest\<close> itself, and \<^verbatim>\<open>getTrackFeatures\<close>) with a status
  outside 2xx or with no reply at all, and the token held is a primitive value, the method
  resolves to \<^verbatim>\<open>undefined\<close>; it does not raise. The last exchange of the call is that
  GET, on the endpoint and with the parameters of the method, and its reply is the one the
  transport gives after all the exchanges before it. Nothing is assumed of the token
  request before it.
\<close>

theorem read_methods_absent_on_failure:
  assumes "perform_read net c s = (res, s')"
    and "last (exchanges s') = (q, r)"
    and "failed r"
    and "primitive (accessToken s')"
  shows "meth q = GET \<and> url q = read_url c \<and> params q = read_params c
     \<and> r = net (butlast (exchanges s')) q
     \<and> res = Inr JUndefined"
proof -
  let ?s1 = "snd (authenticate net s)"
  let ?q = "get_request (read_url c) (read_params c) ?s1"
  have ex: "exchanges s' = exchanges ?s1 @ [(?q, net (exchanges ?s1) ?q)]"
    using perform_read_exchanges [of net c s] assms(1)
    by (simp add: authenticate_exchanges get_reply_def Let_def)
  with assms(2) have q: "q = ?q" and r: "r = net (exchanges ?s1) ?q"
    by auto
  have tie: "r = net (butlast (exchanges s')) q"
    using ex q r by simp
  have "r = get_reply net (read_url c) (read_params c) s"
    using r by (simp add: get_reply_def Let_def)
  then have "fst (perform_read net c s) = Inr JUndefined"
    using perform_read_absent [of net c s] delivered_failed [OF assms(3)] by simp
  then show ?thesis using q tie assms(1) by (simp add: get_request_def)
qed

theorem read_methods_absent_on_failure_witness:
  "failed (snd (last (exchanges (snd (perform_read mock (GetAlbum ''a9'') client1)))))
   \<and> primitive (accessToken (snd (perform_read mock (GetAlbum ''a9'') client1)))
   \<and> fst (perform_read mock (GetAlbum ''a9'') client1) = Inr JUndefined"
proof -
  have f: "failed (snd (last (exchanges (snd (perform_read mock (GetAlbum ''a9'') client1)))))"
    by code_simp
  have p: "primitive (accessToken (snd (perform_read mock (GetAlbum ''a9'') client1)))"
    by code_simp
  from read_methods_absent_on_failure [OF prod.collapse [symmetric] prod.collapse [symmetric] f p]
  show ?thesis using f p by simp
qed

text \<open>
  The failure has to be that of the GET. A failed token request is caught and logged in
  \<^verbatim>\<open>authenticate\<close>, and the GET is sent all the same: with the token endpoint answering
  401 and the GET answered 200, \<^verbatim>\<open>getPlaylist\<close> returns the playlist, not \<^verbatim>\<open>undefined\<close>.
\<close>

theorem read_methods_token_failure_counterexample:
  "url (fst (hd (exchanges (snd (perform_read token_down (GetPlaylist ''p1'') client1))))) = tokenUrl
   \<and> failed (snd (hd (exchanges (snd (perform_read token_down (GetPlaylist ''p1'') client1)))))
   \<and> fst (perform_read token_down (GetPlaylist ''p1'') client1) = Inr playlist_p1
   \<and> fst (perform_read token_down (GetPlaylist ''p1'') client1) \<noteq> Inr JUndefined"
  by code_simp

subsection \<open>One token request per read\<close>

text \<open>
  C3. Every call of \<^verbatim>\<open>makeRequest\<close>, direct or through a read method or
  \<^verbatim>\<open>getTrackFeatures\<close>, sends exactly two requests: first the token request of
  \<^verbatim>\<open>authenticate\<close>, then the GET, whose header carries the token held once
  \<^verbatim>\<open>authenticate\<close> has returned. This holds in every state, also when a token is held
  already.
\<close>

theorem authenticate_once_per_request:
  "map fst (exchanges (snd (perform_read net c s))) =
     map fst (exchanges s) @
       [auth_request s, get_request (read_url c) (read_params c) (snd (authenticate net s))]"
  by (simp add: perform_read_exchanges)

theorem authenticate_once_per_request_witness:
  "map (\<lambda>q. (meth q, url q))
     (map fst (exchanges (snd (perform_read mock (GetPlaylist ''p1'') (client1\<lparr>accessToken := JStr ''old''\<rparr>)))))
   = [(POST, tokenUrl), (GET, playlist_url ''p1'')]"
  using authenticate_once_per_request [of mock "GetPlaylist ''p1''" "client1\<lparr>accessToken := JStr ''old''\<rparr>"]
  by (simp add: client1_def new_Wrapper_def auth_request_def get_request_def)

subsection \<open>Successful reads\<close>

text \<open>
  C4. When the transport answers the GET of a read method with a 2xx status and body
  \<open>d\<close>, the method returns \<open>d\<close> after one level of unwrapping: \<^verbatim>\<open>searchTracks\<close> returns
  \<^verbatim>\<open>d.tracks.items\<close>, \<^verbatim>\<open>getArtistTopTracks\<close> returns \<^verbatim>\<open>d.tracks\<close>, \<^verbatim>\<open>getArtistAlbums\<close>
  returns \<^verbatim>\<open>d.items\<close>, and every other read method returns \<open>d\<close> itself.
\<close>

theorem read_methods_return_body:
  assumes "perform_read net c s = (res, s')"
    and "last (exchanges s') = (q, Reply st d)"
    and "200 \<le> st" and "st < 300"
    and "spec_unwrap c d = Inr v"
  shows "meth q = GET \<and> url q = read_url c \<and> res = Inr v"
proof -
  have "last (exchanges s') = (get_request (read_url c) (read_params c) (snd (authenticate net s)),
          get_reply net (read_url c) (read_params c) s)"
    using perform_read_last [of net c s] assms(1) by simp
  with assms(2) have q: "q = get_request (read_url c) (read_params c) (snd (authenticate net s))"
    and r: "get_reply net (read_url c) (read_params c) s = Reply st d"
    by simp_all
  have "fst (perform_read net c s) = Inr v"
    using perform_read_body [of c net s v] r assms(3-5) by (simp add: delivered_ok)
  then show ?thesis using q assms(1) by (simp add: get_request_def)
qed

theorem read_methods_return_body_witness:
  "fst (perform_read mock (SearchTracks ''A'') client1) = Inr (JArr [track_t1])"
proof -
  let ?d = "JObj [(''tracks'', JObj [(''items'', JArr [track_t1])])]"
  let ?x = "perform_read mock (SearchTracks ''A'') client1"
  have l: "last (exchanges (snd ?x)) = (fst (last (exchanges (snd ?x))), Reply 200 ?d)"
    by code_simp
  have u: "spec_unwrap (SearchTracks ''A'') ?d = Inr (JArr [track_t1])"
    by code_simp
  from read_methods_return_body [OF prod.collapse [symmetric] l _ _ u]
  show ?thesis by simp
qed

subsection \<open>Absent envelopes\<close>

text \<open>
  C5. Whenever the call of \<^verbatim>\<open>makeRequest\<close> made by \<^verbatim>\<open>searchTracks\<close>,
  \<^verbatim>\<open>getArtistTopTracks\<close> or \<^verbatim>\<open>getArtistAlbums\<close> yields \<^verbatim>\<open>undefined\<close>, the method yields
  \<^verbatim>\<open>undefined\<close> as well, not an empty list.
\<close>

theorem envelope_methods_keep_absent:
  "(fst (makeRequest net search_url (search_params query) s) = Inr JUndefined
      \<longrightarrow> fst (searchTracks net query s) = Inr JUndefined)
   \<and> (fst (makeRequest net (top_tracks_url artistId) (JObj [(''market'', JStr market)]) s) = Inr JUndefined
      \<longrightarrow> fst (getArtistTopTracks net artistId market s) = Inr JUndefined)
   \<and> (fst (makeRequest net (artist_albums_url artistId) JUndefined s) = Inr JUndefined
      \<longrightarrow> fst (getArtistAlbums net artistId s) = Inr JUndefined)"
proof (intro conjI impI)
  assume "fst (makeRequest net search_url (search_params query) s) = Inr JUndefined"
  then show "fst (searchTracks net query s) = Inr JUndefined"
    by (cases "makeRequest net search_url (search_params query) s")
       (simp add: searchTracks_def opt_chain_def nullish_def)
next
  assume "fst (makeRequest net (top_tracks_url artistId) (JObj [(''market'', JStr market)]) s) = Inr JUndefined"
  then show "fst (getArtistTopTracks net artistId market s) = Inr JUndefined"
    by (cases "makeRequest net (top_tracks_url artistId) (JObj [(''market'', JStr market)]) s")
       (simp add: getArtistTopTracks_def opt_chain_def nullish_def)
next
  assume "fst (makeRequest net (artist_albums_url artistId) JUndefined s) = Inr JUndefined"
  then show "fst (getArtistAlbums net artistId s) = Inr JUndefined"
    by (cases "makeRequest net (artist_albums_url artistId) JUndefined s")
       (simp add: getArtistAlbums_def opt_chain_def nullish_def)
qed

theorem envelope_methods_keep_absent_witness:
  "fst (makeRequest offline search_url (search_params ''A'') client1) = Inr JUndefined
   \<and> fst (searchTracks offline ''A'' client1) = Inr JUndefined
   \<and> fst (searchTracks offline ''A'' client1) \<noteq> Inr (JArr [])
   \<and> fst (makeRequest mock (top_tracks_url ''a1'') (JObj [(''market'', JStr ''DE'')]) client1) = Inr JUndefined
   \<and> fst (getArtistTopTracks mock ''a1'' ''DE'' client1) = Inr JUndefined
   \<and> fst (makeRequest mock (artist_albums_url ''a1'') JUndefined client1) = Inr JUndefined
   \<and> fst (getArtistAlbums mock ''a1'' client1) = Inr JUndefined"
proof -
  have a: "fst (makeRequest offline search_url (search_params ''A'') client1) = Inr JUndefined"
    by code_simp
  have b: "fst (makeRequest mock (top_tracks_url ''a1'') (JObj [(''market'', JStr ''DE'')]) client1) = Inr JUndefined"
    by code_simp
  have c: "fst (makeRequest mock (artist_albums_url ''a1'') JUndefined client1) = Inr JUndefined"
    by code_simp
  show ?thesis
    using a b c envelope_methods_keep_absent [of offline "''A''" client1 "''a1''" "''DE''"]
      envelope_methods_keep_absent [of mock "''A''" client1 "''a1''" "''DE''"]
    by simp
qed

subsection \<open>The token\<close>

text \<open>
  C9. \<^verbatim>\<open>authenticate\<close> always returns normally. When its token request fails (status
  outside 2xx, or no reply), the field \<^verbatim>\<open>accessToken\<close> keeps the value it had, which may
  still be the initial \<^verbatim>\<open>null\<close>. When the request succeeds, the field is overwritten with
  the \<^verbatim>\<open>access_token\<close> of the body.
\<close>

theorem authenticate_token:
  "fst (authenticate net s) = Inr ()
   \<and> (failed (net (exchanges s) (auth_request s))
        \<longrightarrow> accessToken (snd (authenticate net s)) = accessToken s)
   \<and> (\<forall>st d tok.
        net (exchanges s) (auth_request s) = Reply st d \<and> 200 \<le> st \<and> st < 300
          \<and> get_prop d ''access_token'' = Inr tok
        \<longrightarrow> accessToken (snd (authenticate net s)) = tok)"
  by (auto simp: authenticate_def issue_def auth_settle_def failed_settle and_then_def
        axios_settle_def console_error_def Let_def split: sum.splits)

theorem authenticate_token_witness:
  "failed (offline (exchanges (client1\<lparr>accessToken := JStr ''old''\<rparr>)) (auth_request (client1\<lparr>accessToken := JStr ''old''\<rparr>)))
   \<and> authenticate offline (client1\<lparr>accessToken := JStr ''old''\<rparr>)
       = (Inr (), client1\<lparr>accessToken := JStr ''old'',
            exchanges := [(auth_request client1, NetworkError)],
            console := [([Lit ''Failed to authenticate with Spotify API''], AxiosError None)]\<rparr>)
   \<and> accessToken (snd (authenticate offline client1)) = JNull
   \<and> accessToken (snd (authenticate mock (client1\<lparr>accessToken := JStr ''old''\<rparr>))) = JStr ''tok''"
proof -
  let ?s = "client1\<lparr>accessToken := JStr ''old''\<rparr>"
  have f: "failed (offline (exchanges ?s) (auth_request ?s))"
    by (simp add: offline_def failed_def)
  have g: "failed (offline (exchanges client1) (auth_request client1))"
    by (simp add: offline_def failed_def)
  have m: "mock (exchanges ?s) (auth_request ?s) = Reply 200 (JObj [(''access_token'', JStr ''tok'')])"
    by (simp add: mock_def auth_request_def)
  have p: "get_prop (JObj [(''access_token'', JStr ''tok'')]) ''access_token'' = Inr (JStr ''tok'')"
    by (simp add: get_prop_def nullish_def)
  have e: "authenticate offline ?s
       = (Inr (), client1\<lparr>accessToken := JStr ''old'',
            exchanges := [(auth_request client1, NetworkError)],
            console := [([Lit ''Failed to authenticate with Spotify API''], AxiosError None)]\<rparr>)"
    by (simp add: authenticate_def issue_def auth_settle_def and_then_def axios_settle_def
          console_error_def offline_def client1_def new_Wrapper_def auth_request_def)
  have n: "accessToken client1 = JNull"
    by (simp add: client1_def new_Wrapper_def)
  show ?thesis
    using f g m p e n authenticate_token [of offline ?s] authenticate_token [of offline client1]
      authenticate_token [of mock ?s]
    by simp
qed

subsection \<open>Creating a playlist\<close>

text \<open>
  C7. In a state whose token is a primitive value,
  \<^verbatim>\<open>createPlaylist(userId, name, description, publicStatus)\<close> makes exactly one exchange
  with the transport and none with the token endpoint: it sends a POST to the playlists
  endpoint of the user, with the JSON body \<^verbatim>\<open>{name, description, public: publicStatus}\<close>
  and the bearer token held when the method is called, and gets the reply of the transport
  to that very request. The token is left as it was. When that reply is 2xx the method
  returns its body as it is; when it is a failure the method returns \<^verbatim>\<open>undefined\<close>.
\<close>

theorem createPlaylist_posts_once:
  assumes "primitive (accessToken s)"
  shows "\<exists>q res s'.
     createPlaylist net userId name description publicStatus s = (res, s')
     \<and> q = \<lparr>meth = POST, url = user_playlists_url userId,
             headers = [(''Authorization'', [Lit ''Bearer '', Subst (accessToken s)]),
                        (''Content-Type'', [Lit ''application/json''])],
             params = JUndefined,
             body = JsonBody (JObj [(''name'', JStr name), (''description'', JStr description),
                                    (''public'', JBool publicStatus)])\<rparr>
     \<and> url q \<noteq> tokenUrl
     \<and> exchanges s' = exchanges s @ [(q, net (exchanges s) q)]
     \<and> accessToken s' = accessToken s
     \<and> (\<forall>st d. net (exchanges s) q = Reply st d \<and> 200 \<le> st \<and> st < 300 \<longrightarrow> res = Inr d)
     \<and> (failed (net (exchanges s) q) \<longrightarrow> res = Inr JUndefined)"
proof -
  let ?q = "createPlaylist_request userId name description publicStatus s"
  let ?r = "net (exchanges s) ?q"
  let ?x = "createPlaylist net userId name description publicStatus s"
  have "exchanges (snd ?x) = exchanges s @ [(?q, ?r)]" "accessToken (snd ?x) = accessToken s"
    by (simp_all add: createPlaylist_def issue_def console_error_def Let_def split: sum.splits)
  moreover have "?q = \<lparr>meth = POST, url = user_playlists_url userId,
             headers = [(''Authorization'', [Lit ''Bearer '', Subst (accessToken s)]),
                        (''Content-Type'', [Lit ''application/json''])],
             params = JUndefined,
             body = JsonBody (JObj [(''name'', JStr name), (''description'', JStr description),
                                    (''public'', JBool publicStatus)])\<rparr>"
    "url ?q \<noteq> tokenUrl"
    by (simp_all add: createPlaylist_request_def json_headers_def user_playlists_url_def tokenUrl_def)
  moreover have "\<forall>st d. ?r = Reply st d \<and> 200 \<le> st \<and> st < 300 \<longrightarrow> fst ?x = Inr d"
    by (simp add: createPlaylist_def issue_def axios_settle_def Let_def)
  moreover have "failed ?r \<longrightarrow> fst ?x = Inr JUndefined"
    by (auto simp: createPlaylist_def issue_def failed_settle Let_def)
  ultimately show ?thesis
    by (intro exI [of _ ?q] exI [of _ "fst ?x"] exI [of _ "snd ?x"]) simp
qed

theorem createPlaylist_posts_once_witness:
  "primitive (accessToken client1)
   \<and> createPlaylist mock ''u1'' ''My List'' ''desc'' True client1
     = (Inr playlist_pl1,
        client1\<lparr>exchanges := [(createPlaylist_request ''u1'' ''My List'' ''desc'' True client1, Reply 201 playlist_pl1)]\<rparr>)
   \<and> exchanges (snd (createPlaylist offline ''u1'' ''My List'' ''desc'' True client1))
       = [(createPlaylist_request ''u1'' ''My List'' ''desc'' True client1, NetworkError)]
   \<and> failed NetworkError
   \<and> fst (createPlaylist offline ''u1'' ''My List'' ''desc'' True client1) = Inr JUndefined"
proof -
  have p: "primitive (accessToken client1)"
    by code_simp
  have a: "createPlaylist mock ''u1'' ''My List'' ''desc'' True client1
     = (Inr playlist_pl1,
        client1\<lparr>exchanges := [(createPlaylist_request ''u1'' ''My List'' ''desc'' True client1, Reply 201 playlist_pl1)]\<rparr>)"
    by code_simp
  have b: "exchanges (snd (createPlaylist offline ''u1'' ''My List'' ''desc'' True client1))
             = [(createPlaylist_request ''u1'' ''My List'' ''desc'' True client1, NetworkError)]"
    by code_simp
  have c: "failed NetworkError"
    by (simp add: failed_def)
  from createPlaylist_posts_once [OF p, of offline "''u1''" "''My List''" "''desc''" True]
  obtain q res s' where
    y: "createPlaylist offline ''u1'' ''My List'' ''desc'' True client1 = (res, s')"
    and bad: "failed (offline (exchanges client1) q) \<longrightarrow> res = Inr JUndefined"
    by blast
  have "res = Inr JUndefined" using bad c by (simp add: offline_def)
  with y p a b c show ?thesis by simp
qed

subsection \<open>Adding tracks\<close>

text \<open>
  C8. In a state whose token is a primitive value,
  \<^verbatim>\<open>addTracksToPlaylist(playlistId, trackUris)\<close> makes exactly one exchange with the
  transport and none with the token endpoint: it sends a POST to the tracks endpoint of the
  playlist with the JSON body \<^verbatim>\<open>{uris: trackUris}\<close> and the bearer token held when the
  method is called, and the reply logged is the one the transport gives to that very
  request. The token is left as it was. The method resolves to no value, whatever the
  reply.
\<close>

theorem addTracksToPlaylist_posts_once:
  assumes "primitive (accessToken s)"
  shows "\<exists>q s'.
     addTracksToPlaylist net playlistId trackUris s = (Inr JUndefined, s')
     \<and> q = \<lparr>meth = POST, url = playlist_tracks_url playlistId,
             headers = [(''Authorization'', [Lit ''Bearer '', Subst (accessToken s)]),
                        (''Content-Type'', [Lit ''application/json''])],
             params = JUndefined,
             body = JsonBody (JObj [(''uris'', JArr (map JStr trackUris))])\<rparr>
     \<and> url q \<noteq> tokenUrl
     \<and> exchanges s' = exchanges s @ [(q, net (exchanges s) q)]
     \<and> accessToken s' = accessToken s"
proof -
  let ?q = "addTracks_request playlistId trackUris s"
  let ?x = "addTracksToPlaylist net playlistId trackUris s"
  have "fst ?x = Inr JUndefined" "exchanges (snd ?x) = exchanges s @ [(?q, net (exchanges s) ?q)]"
    "accessToken (snd ?x) = accessToken s"
    by (simp_all add: addTracksToPlaylist_def issue_def console_error_def Let_def split: sum.splits)
  moreover have "?q = \<lparr>meth = POST, url = playlist_tracks_url playlistId,
             headers = [(''Authorization'', [Lit ''Bearer '', Subst (accessToken s)]),
                        (''Content-Type'', [Lit ''application/json''])],
             params = JUndefined,
             body = JsonBody (JObj [(''uris'', JArr (map JStr trackUris))])\<rparr>"
    "url ?q \<noteq> tokenUrl"
    by (simp_all add: addTracks_request_def json_headers_def playlist_tracks_url_def tokenUrl_def)
  ultimately show ?thesis
    by (intro exI [of _ ?q] exI [of _ "snd ?x"]) (simp add: prod_eq_iff)
qed

theorem addTracksToPlaylist_posts_once_witness:
  "primitive (accessToken client1)
   \<and> addTracksToPlaylist mock ''pl1'' [''uri1'', ''uri2''] client1
     = (Inr JUndefined,
        client1\<lparr>exchanges :=
          [(\<lparr>meth = POST, url = playlist_tracks_url ''pl1'', headers = json_headers client1,
             params = JUndefined,
             body = JsonBody (JObj [(''uris'', JArr [JStr ''uri1'', JStr ''uri2''])])\<rparr>,
            Reply 201 (JObj [(''snapshot_id'', JStr ''x'')]))]\<rparr>)
   \<and> fst (addTracksToPlaylist offline ''pl1'' [''uri1'', ''uri2''] client1) = Inr JUndefined"
proof -
  have p: "primitive (accessToken client1)"
    by code_simp
  have a: "addTracksToPlaylist mock ''pl1'' [''uri1'', ''uri2''] client1
     = (Inr JUndefined,
        client1\<lparr>exchanges :=
          [(\<lparr>meth = POST, url = playlist_tracks_url ''pl1'', headers = json_headers client1,
             params = JUndefined,
             body = JsonBody (JObj [(''uris'', JArr [JStr ''uri1'', JStr ''uri2''])])\<rparr>,
            Reply 201 (JObj [(''snapshot_id'', JStr ''x'')]))]\<rparr>)"
    by code_simp
  from addTracksToPlaylist_posts_once [OF p, of offline "''pl1''" "[''uri1'', ''uri2'']"]
  have "fst (addTracksToPlaylist offline ''pl1'' [''uri1'', ''uri2''] client1) = Inr JUndefined"
    by auto
  with p a show ?thesis by simp
qed

subsection \<open>Analysing a playlist\<close>

text \<open>
  C6. When the fetch of the playlist yields \<^verbatim>\<open>undefined\<close>, \<^verbatim>\<open>analyzePlaylist\<close> returns
  \<^verbatim>\<open>undefined\<close> at once, under every schedule: the only exchanges are the two of
  \<^verbatim>\<open>getPlaylist\<close>, so no feature request is sent.
\<close>

theorem analyzePlaylist_absent_playlist:
  assumes "fst (getPlaylist net playlistId s) = Inr JUndefined"
  shows "analyzePlaylist net sched playlistId s = (Some (Inr JUndefined), snd (getPlaylist net playlistId s))
     \<and> exchanges (snd (analyzePlaylist net sched playlistId s))
         = exchanges s @ [(auth_request s, net (exchanges s) (auth_request s)),
                          (get_request (playlist_url playlistId) JUndefined (snd (authenticate net s)),
                           get_reply net (playlist_url playlistId) JUndefined s)]"
proof -
  have "analyzePlaylist net sched playlistId s = (Some (Inr JUndefined), snd (getPlaylist net playlistId s))"
    using assms by (cases "getPlaylist net playlistId s") (simp add: analyzePlaylist_def truthy_def)
  then show ?thesis by (simp add: getPlaylist_def makeRequest_exchanges)
qed

theorem analyzePlaylist_absent_playlist_witness:
  "fst (getPlaylist mock ''gone'' client1) = Inr JUndefined
   \<and> fst (analyzePlaylist mock [0, 1, 0, 1, 0, 1] ''gone'' client1) = Some (Inr JUndefined)
   \<and> map (\<lambda>x. (meth (fst x), url (fst x))) (exchanges (snd (analyzePlaylist mock [0, 1, 0, 1, 0, 1] ''gone'' client1)))
       = [(POST, tokenUrl), (GET, playlist_url ''gone'')]"
proof -
  have a: "fst (getPlaylist mock ''gone'' client1) = Inr JUndefined"
    by code_simp
  have c: "exchanges client1 = []"
    by (simp add: client1_def new_Wrapper_def)
  note inst = analyzePlaylist_absent_playlist [OF a, of "[0, 1, 0, 1, 0, 1]"]
  have "fst (analyzePlaylist mock [0, 1, 0, 1, 0, 1] ''gone'' client1) = Some (Inr JUndefined)"
    using inst [THEN conjunct1] by simp
  moreover have "map (\<lambda>x. (meth (fst x), url (fst x)))
        (exchanges (snd (analyzePlaylist mock [0, 1, 0, 1, 0, 1] ''gone'' client1)))
       = [(POST, tokenUrl), (GET, playlist_url ''gone'')]"
    unfolding inst [THEN conjunct2] by (simp add: c auth_request_def get_request_def)
  ultimately show ?thesis using a by simp
qed

text \<open>
  C10. When the playlist is fetched and its \<^verbatim>\<open>tracks.items\<close> is the empty list,
  \<^verbatim>\<open>analyzePlaylist\<close> returns the empty list, which is a value and not \<^verbatim>\<open>undefined\<close>, and
  the state is the one \<^verbatim>\<open>getPlaylist\<close> left: no feature request is sent.
\<close>

theorem analyzePlaylist_empty_playlist:
  assumes "getPlaylist net playlistId s = (Inr playlist, s1)"
    and "and_then (get_prop playlist ''tracks'') (\<lambda>t. get_prop t ''items'') = Inr (JArr [])"
  shows "analyzePlaylist net sched playlistId s = (Some (Inr (JArr [])), s1)
     \<and> Some (Inr (JArr [])) \<noteq> Some (Inr JUndefined)"
proof -
  have "truthy playlist" using items_truthy [OF assms(2)] .
  moreover have "run net sched ([], s1) = ([], s1)"
    by (induction sched) simp_all
  ultimately show ?thesis using assms
    by (simp add: analyzePlaylist_def promise_all_def List.map_filter_simps)
qed

theorem analyzePlaylist_empty_playlist_witness:
  "fst (getPlaylist mock ''p0'' client1) = Inr playlist_p0
   \<and> analyzePlaylist mock [2, 0, 1] ''p0'' client1 = (Some (Inr (JArr [])), snd (getPlaylist mock ''p0'' client1))"
proof -
  have a: "getPlaylist mock ''p0'' client1 = (Inr playlist_p0, snd (getPlaylist mock ''p0'' client1))"
    by code_simp
  have b: "and_then (get_prop playlist_p0 ''tracks'') (\<lambda>t. get_prop t ''items'') = Inr (JArr [])"
    by code_simp
  have c: "fst (getPlaylist mock ''p0'' client1) = Inr playlist_p0"
    by code_simp
  show ?thesis
    using c analyzePlaylist_empty_playlist [OF a b, of "[2, 0, 1]"] by simp
qed




end
